theory Spec2Isabelle
  imports Complex_Main
begin

section \<open>The quadcopter task of \<open>P5_Quadcopter/task_AC.py\<close>\<close>

text \<open>
  The module wraps a physics simulator (\<open>physics_sim.PhysicsSim\<close>, which is not part of
  the module) and gives a reinforcement-learning agent the operations \<open>step\<close>,
  \<open>reset\<close>, \<open>get_reward\<close> and \<open>get_max_reward\<close>.

  Conventions of the embedding:
  \<^item> a numpy \<open>float64\<close> is a \<^typ>\<open>real\<close>: there is no rounding, no overflow, no NaN and
    no infinity here. Statements whose truth depends on rounding are outside this model;
  \<^item> a numpy array of shape \<open>(3,)\<close> is a triple, the simulator's pose of shape \<open>(6,)\<close>
    is a pair of triples (\<open>pose[:3]\<close> and \<open>pose[3:]\<close>), an array of unknown length (the
    action, the observation) is a list;
  \<^item> an optional argument (\<open>None\<close> by default) is an \<open>option\<close>;
  \<^item> a raised exception is a value \<open>Inl e\<close>; a method returns its result together with
    the object as the call leaves it, also when it raises;
  \<^item> the simulator's constructor and its \<open>next_timestep\<close> are parameters of the
    operations that call them.
\<close>

datatype error = TypeError | ValueError | IndexError | UnboundLocalError

type_synonym vec3 = "real \<times> real \<times> real"

type_synonym pose6 = "vec3 \<times> vec3"

subsection \<open>Arrays\<close>

definition vsub :: "vec3 \<Rightarrow> vec3 \<Rightarrow> vec3" where
  "vsub a b = (case a of (a0, a1, a2) \<Rightarrow> case b of (b0, b1, b2) \<Rightarrow> (a0 - b0, a1 - b1, a2 - b2))"

definition vmap :: "(real \<Rightarrow> real) \<Rightarrow> vec3 \<Rightarrow> vec3" where
  "vmap f a = (case a of (a0, a1, a2) \<Rightarrow> (f a0, f a1, f a2))"

definition vsum :: "vec3 \<Rightarrow> real" where
  "vsum a = (case a of (a0, a1, a2) \<Rightarrow> a0 + a1 + a2)"

definition vdot :: "vec3 \<Rightarrow> vec3 \<Rightarrow> real" where
  "vdot a b = (case a of (a0, a1, a2) \<Rightarrow> case b of (b0, b1, b2) \<Rightarrow> a0 * b0 + a1 * b1 + a2 * b2)"

definition vlist :: "vec3 \<Rightarrow> real list" where
  "vlist a = (case a of (a0, a1, a2) \<Rightarrow> [a0, a1, a2])"

definition pose_list :: "pose6 \<Rightarrow> real list" where
  "pose_list p = vlist (fst p) @ vlist (snd p)"

subsection \<open>Module-level helpers\<close>

text \<open>\<open>smoothabs(x) = np.sqrt(np.square(x) + 10e-16)\<close>; the literal \<open>10e-16\<close> is \<open>10\<^sup>-\<^sup>1\<^sup>5\<close>.\<close>

definition smoothabs :: "real \<Rightarrow> real" where
  "smoothabs x = sqrt (x\<^sup>2 + 1 / 10 ^ 15)"

text \<open>
  \<open>smoothmin\<close>: where both exponentials are positive reals the quotient is as written;
  numpy's overflow of \<open>np.exp\<close> has no counterpart here.
\<close>

definition smoothmin :: "real \<Rightarrow> real \<Rightarrow> real" where
  "smoothmin a b =
     (let alpha = - 100
      in (a * exp (alpha * a) + b * exp (alpha * b)) / (exp (alpha * a) + exp (alpha * b)))"

definition mag :: "vec3 \<Rightarrow> real" where
  "mag w = sqrt (vdot w w)"

subsection \<open>The simulator as the task sees it\<close>

record sim =
  sim_time :: real
  sim_pose :: pose6
  sim_v :: vec3
  sim_angular_v :: vec3
  sim_init_pose :: pose6
  sim_init_v :: vec3
  sim_init_angular_v :: vec3
  sim_runtime :: real

text \<open>
  Modelled from the spec: \<open>PhysicsSim.reset\<close> is not in the module. The spec says that it
  resets the wrapped simulator to its initial pose and velocity; an episode runs from
  \<open>reset()\<close>, so the clock restarts as well.
\<close>

definition sim_reset :: "sim \<Rightarrow> sim" where
  "sim_reset s =
     s\<lparr>sim_time := 0, sim_pose := sim_init_pose s, sim_v := sim_init_v s,
       sim_angular_v := sim_init_angular_v s\<rparr>"

type_synonym sim_ctor = "pose6 option \<Rightarrow> vec3 option \<Rightarrow> vec3 option \<Rightarrow> real \<Rightarrow> sim"

type_synonym sim_step = "sim \<Rightarrow> real list \<Rightarrow> sim \<times> bool"

subsection \<open>The task\<close>

text \<open>
  \<open>distpunishment\<close> and \<open>highanglepunishment\<close> are attributes that \<open>calc_reward\<close>
  creates: they are \<open>None\<close> until its first call.
\<close>

record task =
  sim :: sim
  action_repeat :: nat
  state_size :: nat
  action_size :: nat
  action_low :: "real list"
  action_high :: "real list"
  target_pos :: vec3
  target_vel :: vec3
  initvec2tgt :: vec3
  suminitdist :: real
  initdist2tgt :: real
  distpunishment :: "real option"
  highanglepunishment :: "real option"

text \<open>
  \<open>Task.__init__\<close>; its arguments \<open>target_pos\<close> and \<open>target_vel\<close> are written
  \<open>arg_target_pos\<close> and \<open>arg_target_vel\<close>, the plain names being the fields. The defaults
  of lines 50 and 51 go to the fields; line 53 then subtracts with the arguments
  \<open>target_pos\<close> and \<open>init_pose\<close> themselves: \<open>init_pose[:3]\<close> raises \<open>TypeError\<close> on
  \<open>None\<close>, and so does \<open>None - array\<close>.
\<close>

definition Task_init ::
  "sim_ctor \<Rightarrow> pose6 option \<Rightarrow> vec3 option \<Rightarrow> vec3 option \<Rightarrow> real \<Rightarrow> vec3 option \<Rightarrow> vec3 option
     \<Rightarrow> error + task" where
  "Task_init PhysicsSim init_pose init_velocities init_angle_velocities runtime
       arg_target_pos arg_target_vel =
     (let s = PhysicsSim init_pose init_velocities init_angle_velocities runtime;
          self_target_pos = (case arg_target_pos of Some t \<Rightarrow> t | None \<Rightarrow> (0, 0, 10));
          self_target_vel = (case arg_target_vel of Some w \<Rightarrow> w | None \<Rightarrow> (0, 0, 0))
      in case init_pose of
           None \<Rightarrow> Inl TypeError
         | Some p \<Rightarrow>
            (case arg_target_pos of
               None \<Rightarrow> Inl TypeError
             | Some t \<Rightarrow>
                (let i2t = vsub t (fst p)
                 in Inr \<lparr>sim = s, action_repeat = 3, state_size = 3 * (6 + 3), action_size = 5,
                         action_low = [400, - 1, - 1, - 1, - 1],
                         action_high = [565, 1, 1, 1, 1],
                         target_pos = self_target_pos, target_vel = self_target_vel,
                         initvec2tgt = i2t,
                         suminitdist = max (vsum (vmap abs i2t)) 5,
                         initdist2tgt = max (mag i2t) 5,
                         distpunishment = None, highanglepunishment = None\<rparr>)))"

text \<open>
  \<open>Task.calc_reward\<close> returns \<open>np.tanh([2. - self.highanglepunishment])\<close>, an array of
  one element, which is identified with that element. \<open>dist2tgt\<close> is computed and not
  used, as in the source.
\<close>

definition calc_reward :: "task \<Rightarrow> real \<Rightarrow> vec3 \<Rightarrow> vec3 \<Rightarrow> vec3 \<Rightarrow> real \<times> task" where
  "calc_reward self time position angles velocities =
     (let rvec2tgt = vsub (target_pos self) position;
          dist2tgt = mag rvec2tgt;
          dp = vsum (vmap smoothabs rvec2tgt) / suminitdist self;
          myphi = fst angles;
          mytheta = fst (snd angles);
          myphi = (if myphi > pi then myphi - 2 * pi else myphi);
          mytheta = (if mytheta > pi then mytheta - 2 * pi else mytheta);
          hap = smoothabs mytheta + smoothabs myphi
      in (tanh (2 - hap), self\<lparr>distpunishment := Some dp, highanglepunishment := Some hap\<rparr>))"

definition get_reward :: "task \<Rightarrow> real \<times> task" where
  "get_reward self =
     calc_reward self (sim_time (sim self)) (fst (sim_pose (sim self))) (snd (sim_pose (sim self)))
       (sim_v (sim self))"

definition get_max_reward :: "task \<Rightarrow> real \<times> task" where
  "get_max_reward self =
     (case calc_reward self (10 ^ 8) (target_pos self) (0, 0, 0) (0, 0, 0) of
        (r, self') \<Rightarrow> (real (action_repeat self) * r, self'))"

text \<open>
  \<open>np.maximum(actions[0] + actions[1:5], np.ones(4))\<close>: \<open>actions[0]\<close> raises on an empty
  array; the slice has at most four elements, and numpy broadcasts it against the four
  ones only when it has four elements or one.
\<close>

definition rotor_speeds_of :: "real list \<Rightarrow> error + real list" where
  "rotor_speeds_of actions =
     (case actions of
        [] \<Rightarrow> Inl IndexError
      | a0 # rest \<Rightarrow>
         (let sl = take 4 rest
          in if length sl = 4 then Inr (map (\<lambda>d. max (a0 + d) 1) sl)
             else if length sl = 1 then Inr (replicate 4 (max (a0 + hd sl) 1))
             else Inl ValueError))"

text \<open>
  One iteration of the loop of \<open>Task.step\<close>: the simulator advances, the reward of the
  new pose is computed, and the iteration yields the task, that reward and the
  simulator's \<open>done\<close>.
\<close>

definition sub_step :: "sim_step \<Rightarrow> real list \<Rightarrow> task \<Rightarrow> task \<times> real \<times> bool" where
  "sub_step next_timestep rotor_speeds self =
     (case next_timestep (sim self) rotor_speeds of
        (s', d) \<Rightarrow> (case get_reward (self\<lparr>sim := s'\<rparr>) of (r, self') \<Rightarrow> (self', r, d)))"

text \<open>The list \<open>[self.sim.pose, self.sim.angular_v]\<close>.\<close>

definition pose_and_angular_v :: "task \<Rightarrow> real list list" where
  "pose_and_angular_v self = [pose_list (sim_pose (sim self)), vlist (sim_angular_v (sim self))]"

text \<open>
  The loop: its state is the task, \<open>reward\<close>, \<open>pose_all\<close> and \<open>done\<close>, which is unbound
  (\<open>None\<close>) before the first iteration and overwritten by each one.
\<close>

type_synonym loop_state = "task \<times> real \<times> real list list \<times> bool option"

fun step_loop :: "sim_step \<Rightarrow> real list \<Rightarrow> nat \<Rightarrow> loop_state \<Rightarrow> loop_state" where
  "step_loop next_timestep rotor_speeds 0 st = st"
| "step_loop next_timestep rotor_speeds (Suc n) (self, reward, pose_all, done) =
     (case sub_step next_timestep rotor_speeds self of
        (self', r, d) \<Rightarrow>
          step_loop next_timestep rotor_speeds n
            (self', reward + r, pose_all @ pose_and_angular_v self', Some d))"

text \<open>\<open>np.concatenate\<close> raises \<open>ValueError\<close> on an empty list of arrays.\<close>

definition np_concatenate :: "real list list \<Rightarrow> error + real list" where
  "np_concatenate xss = (if xss = [] then Inl ValueError else Inr (concat xss))"

text \<open>\<open>Task.step\<close> from the loop on, for the rotor speeds it has computed.\<close>

definition step_with :: "sim_step \<Rightarrow> task \<Rightarrow> real list \<Rightarrow> (error + real list \<times> real \<times> bool) \<times> task" where
  "step_with next_timestep self rotor_speeds =
     (case step_loop next_timestep rotor_speeds (action_repeat self) (self, 0, [], None) of
        (self', reward, pose_all, done) \<Rightarrow>
          (case np_concatenate pose_all of
             Inl e \<Rightarrow> (Inl e, self')
           | Inr next_state \<Rightarrow>
              (case done of
                 None \<Rightarrow> (Inl UnboundLocalError, self')
               | Some d \<Rightarrow> (Inr (next_state, reward, d), self'))))"

definition step :: "sim_step \<Rightarrow> task \<Rightarrow> real list \<Rightarrow> (error + real list \<times> real \<times> bool) \<times> task" where
  "step next_timestep self actions =
     (case rotor_speeds_of actions of
        Inl e \<Rightarrow> (Inl e, self)
      | Inr rotor_speeds \<Rightarrow> step_with next_timestep self rotor_speeds)"

definition reset :: "task \<Rightarrow> vec3 option \<Rightarrow> (error + real list) \<times> task" where
  "reset self new_tgt_pos =
     (let s = sim_reset (sim self);
          self1 = self\<lparr>sim := s\<rparr>
      in case np_concatenate (concat (replicate (action_repeat self1) (pose_and_angular_v self1))) of
           Inl e \<Rightarrow> (Inl e, self1)
         | Inr state \<Rightarrow>
            (case new_tgt_pos of
               None \<Rightarrow> (Inr state, self1)
             | Some t \<Rightarrow>
                (let i2t = vsub t (fst (sim_pose s))
                 in (Inr state,
                     self1\<lparr>target_pos := t, initvec2tgt := i2t,
                           suminitdist := max (vsum (vmap smoothabs i2t)) 5,
                           initdist2tgt := mag i2t\<rparr>))))"

subsection \<open>Sequences of calls\<close>

datatype call = Step "real list" | Reset "vec3 option" | Get_reward | Get_max_reward

fun do_call :: "sim_step \<Rightarrow> task \<Rightarrow> call \<Rightarrow> task" where
  "do_call nt self (Step actions) = snd (step nt self actions)"
| "do_call nt self (Reset new_tgt_pos) = snd (reset self new_tgt_pos)"
| "do_call nt self Get_reward = snd (get_reward self)"
| "do_call nt self Get_max_reward = snd (get_max_reward self)"

definition run :: "sim_step \<Rightarrow> task \<Rightarrow> call list \<Rightarrow> task" where
  "run nt self cs = foldl (do_call nt) self cs"

subsection \<open>Concrete simulators and tasks\<close>

text \<open>
  A constructor that stores what it is given and starts at the initial pose (an omitted
  pose is the origin, an omitted velocity is zero), and two instances of
  \<open>next_timestep\<close>. The first lets the clock run and reports \<open>done\<close> once the runtime
  is exceeded. The second moves the position by the velocity and reports \<open>done\<close> for the
  step on which the height reaches the ground, where the velocity is reversed: its
  \<open>done\<close> is \<open>True\<close> on one step and \<open>False\<close> on the next.
\<close>

definition demo_PhysicsSim :: sim_ctor where
  "demo_PhysicsSim init_pose init_velocities init_angle_velocities runtime =
     (let p = (case init_pose of Some p \<Rightarrow> p | None \<Rightarrow> ((0, 0, 0), (0, 0, 0)));
          w = (case init_velocities of Some w \<Rightarrow> w | None \<Rightarrow> (0, 0, 0));
          a = (case init_angle_velocities of Some a \<Rightarrow> a | None \<Rightarrow> (0, 0, 0))
      in \<lparr>sim_time = 0, sim_pose = p, sim_v = w, sim_angular_v = a,
          sim_init_pose = p, sim_init_v = w, sim_init_angular_v = a, sim_runtime = runtime\<rparr>)"

definition clock_next_timestep :: sim_step where
  "clock_next_timestep s rotor_speeds =
     (s\<lparr>sim_time := sim_time s + 1 / 50\<rparr>, sim_time s + 1 / 50 > sim_runtime s)"

definition bounce_next_timestep :: sim_step where
  "bounce_next_timestep s rotor_speeds =
     (case sim_pose s of
        ((x, y, z), ang) \<Rightarrow>
          (case sim_v s of
             (vx, vy, vz) \<Rightarrow>
               (let z' = z + vz;
                    hit = (z' \<le> 0)
                in (s\<lparr>sim_time := sim_time s + 1, sim_pose := ((x + vx, y + vy, z'), ang),
                      sim_v := (if hit then (vx, vy, - vz) else (vx, vy, vz))\<rparr>,
                    hit))))"

definition demo_task :: task where
  "demo_task =
     \<lparr>sim = demo_PhysicsSim (Some ((0, 0, 1), (0, 0, 0))) (Some (0, 0, - 1)) None 5,
      action_repeat = 3, state_size = 27, action_size = 5,
      action_low = [400, - 1, - 1, - 1, - 1], action_high = [565, 1, 1, 1, 1],
      target_pos = (0, 0, 10), target_vel = (0, 0, 0),
      initvec2tgt = (0, 0, 9), suminitdist = 9, initdist2tgt = 9,
      distpunishment = None, highanglepunishment = None\<rparr>"

text \<open>The \<open>done\<close> component of what \<open>step\<close> returns, where it returns.\<close>

definition done_of :: "error + real list \<times> real \<times> bool \<Rightarrow> error + bool" where
  "done_of res = (case res of Inl e \<Rightarrow> Inl e | Inr (next_state, reward, d) \<Rightarrow> Inr d)"

text \<open>
  What the constructor establishes and every call keeps: three sub-steps per step and a
  normalization constant of at least 5.
\<close>

definition task_ok :: "task \<Rightarrow> bool" where
  "task_ok self = (action_repeat self = 3 \<and> 5 \<le> suminitdist self)"

section \<open>Properties\<close>

subsection \<open>Auxiliary facts\<close>

lemma demo_task_constructed:
  "Task_init demo_PhysicsSim (Some ((0, 0, 1), (0, 0, 0))) (Some (0, 0, - 1)) None 5
     (Some (0, 0, 10)) None = Inr demo_task"
  by (simp add: Task_init_def demo_task_def vsub_def vmap_def vsum_def mag_def vdot_def)

lemma demo_sim:
  "sim demo_task =
     \<lparr>sim_time = 0, sim_pose = ((0, 0, 1), (0, 0, 0)), sim_v = (0, 0, - 1),
      sim_angular_v = (0, 0, 0), sim_init_pose = ((0, 0, 1), (0, 0, 0)), sim_init_v = (0, 0, - 1),
      sim_init_angular_v = (0, 0, 0), sim_runtime = 5\<rparr>"
  by (simp add: demo_task_def demo_PhysicsSim_def Let_def)

lemma demo_rotor: "rotor_speeds_of [0, 0, 0, 0, 0] = Inr [1, 1, 1, 1]"
  by (simp add: rotor_speeds_of_def)

lemma calc_reward_value:
  "fst (calc_reward self time position angles velocities) =
     tanh (2 - (smoothabs (if fst (snd angles) > pi then fst (snd angles) - 2 * pi else fst (snd angles))
              + smoothabs (if fst angles > pi then fst angles - 2 * pi else fst angles)))"
  by (simp add: calc_reward_def Let_def)

lemma sim_calc_reward: "sim (snd (calc_reward self time position angles velocities)) = sim self"
  by (simp add: calc_reward_def Let_def)

lemma sub_step_sim: "sim (fst (sub_step nt rs t)) = fst (nt (sim t) rs)"
  by (simp add: sub_step_def get_reward_def case_prod_beta sim_calc_reward)

lemma sub_step_done: "snd (snd (sub_step nt rs t)) = snd (nt (sim t) rs)"
  by (simp add: sub_step_def case_prod_beta)

lemma sim_get_reward: "sim (snd (get_reward t)) = sim t"
  by (simp add: get_reward_def sim_calc_reward)

lemma sub_step_explicit:
  "sub_step nt rs t =
     (snd (get_reward (t\<lparr>sim := fst (nt (sim t) rs)\<rparr>)),
      fst (get_reward (t\<lparr>sim := fst (nt (sim t) rs)\<rparr>)),
      snd (nt (sim t) rs))"
  by (simp add: sub_step_def case_prod_beta)

lemma length_vlist: "length (vlist a) = 3"
  by (simp add: vlist_def split: prod.splits)

lemma length_pose_and_angular_v: "length (concat (pose_and_angular_v t)) = 9"
  by (simp add: pose_and_angular_v_def pose_list_def length_vlist)

text \<open>With \<open>action_repeat = 3\<close> the loop of \<open>step\<close> is three iterations in a row.\<close>

lemma step_three:
  assumes "action_repeat self = 3"
  shows "step_with nt self rs =
     (let i1 = sub_step nt rs self;
          i2 = sub_step nt rs (fst i1);
          i3 = sub_step nt rs (fst i2)
      in (Inr (concat (pose_and_angular_v (fst i1)) @ concat (pose_and_angular_v (fst i2))
                 @ concat (pose_and_angular_v (fst i3)),
               fst (snd i1) + fst (snd i2) + fst (snd i3), snd (snd i3)), fst i3))"
  using assms
  by (simp add: step_with_def numeral_3_eq_3 np_concatenate_def pose_and_angular_v_def Let_def
        case_prod_beta split: prod.splits)

lemma smoothabs_pos: "0 < smoothabs x"
  by (simp add: smoothabs_def add_nonneg_pos)

lemma smoothabs_gt:
  assumes "0 \<le> c" and "c \<le> \<bar>x\<bar>"
  shows "c < smoothabs x"
proof -
  from assms have "c\<^sup>2 \<le> x\<^sup>2" by (metis abs_le_square_iff abs_of_nonneg)
  then have "c\<^sup>2 < x\<^sup>2 + 1 / 10 ^ 15" by simp
  then show ?thesis unfolding smoothabs_def by (rule real_less_rsqrt)
qed

text \<open>What \<open>reset\<close> does when it is given a new target and the task repeats actions.\<close>

lemma reset_new_target:
  assumes "0 < action_repeat self"
  shows "reset self (Some t) =
     (Inr (concat (concat (replicate (action_repeat self)
              (pose_and_angular_v (self\<lparr>sim := sim_reset (sim self)\<rparr>))))),
      self\<lparr>sim := sim_reset (sim self), target_pos := t,
           initvec2tgt := vsub t (fst (sim_init_pose (sim self))),
           suminitdist := max (vsum (vmap smoothabs (vsub t (fst (sim_init_pose (sim self)))))) 5,
           initdist2tgt := mag (vsub t (fst (sim_init_pose (sim self))))\<rparr>)"
proof -
  from assms obtain n where n: "action_repeat self = Suc n"
    by (cases "action_repeat self") auto
  show ?thesis
    by (simp add: reset_def Let_def np_concatenate_def n pose_and_angular_v_def sim_reset_def)
qed

subsection \<open>Normalization constants after a reset with a new target\<close>

text \<open>
  C1, as the spec states it: after \<open>reset\<close> with a new target \<open>t\<close>, \<open>suminitdist\<close> is the
  larger of 5 and the sum of the plain absolute values of \<open>t\<close> minus the initial
  position, and \<open>initdist2tgt\<close> is the larger of 5 and the Euclidean norm of that vector.
  Neither holds for the task at initial position \<open>(0, 0, 1)\<close> and the new target
  \<open>(3, 3, 1)\<close>: the sum is taken over \<open>smoothabs\<close>, which exceeds 6, and the norm
  \<open>sqrt 18\<close> is stored without the floor.
\<close>

theorem reset_floor_counterexample:
  "suminitdist (snd (reset demo_task (Some (3, 3, 1))))
      \<noteq> max (vsum (vmap abs (vsub (3, 3, 1) (fst (sim_init_pose (sim demo_task)))))) 5
   \<and> initdist2tgt (snd (reset demo_task (Some (3, 3, 1))))
      \<noteq> max (mag (vsub (3, 3, 1) (fst (sim_init_pose (sim demo_task))))) 5"
proof -
  have ar: "0 < action_repeat demo_task" by (simp add: demo_task_def)
  have v: "vsub (3, 3, 1) (fst (sim_init_pose (sim demo_task))) = (3, 3, 0)"
    by (simp add: demo_sim vsub_def)
  have "3 < smoothabs 3" by (rule smoothabs_gt) simp_all
  moreover have "0 < smoothabs 0" by (rule smoothabs_pos)
  ultimately have a: "6 < vsum (vmap smoothabs (3, 3, 0))" by (simp add: vsum_def vmap_def)
  have "sqrt 18 < 5" by (rule real_less_lsqrt) simp_all
  then have b: "mag (3, 3, 0) < 5" by (simp add: mag_def vdot_def)
  from a b show ?thesis
    by (simp add: reset_new_target [OF ar] v vsum_def vmap_def)
qed

text \<open>
  C1, amended: after \<open>reset\<close> with a new target \<open>t\<close> (on a task whose \<open>action_repeat\<close> is
  positive, as the constructor sets it), the target is \<open>t\<close>, \<open>initvec2tgt\<close> is \<open>t\<close> minus
  the simulator's initial position, and \<open>suminitdist\<close> is the larger of 5 and the sum of
  \<open>smoothabs\<close> over the components of that vector.
\<close>

theorem reset_recomputes_smooth_floor:
  assumes "0 < action_repeat self"
  shows "suminitdist (snd (reset self (Some t)))
           = max (vsum (vmap smoothabs (vsub t (fst (sim_init_pose (sim self)))))) 5
         \<and> initvec2tgt (snd (reset self (Some t))) = vsub t (fst (sim_init_pose (sim self)))
         \<and> target_pos (snd (reset self (Some t))) = t"
  by (simp add: reset_new_target [OF assms])

theorem reset_recomputes_smooth_floor_witness:
  "0 < action_repeat demo_task
   \<and> suminitdist (snd (reset demo_task (Some (0, 0, 2)))) = 5
   \<and> initvec2tgt (snd (reset demo_task (Some (0, 0, 2)))) = (0, 0, 1)"
proof -
  have ar: "0 < action_repeat demo_task" by (simp add: demo_task_def)
  have "sqrt (1 + 1 / 10 ^ 15) \<le> 2" by (rule real_le_lsqrt) simp_all
  moreover have "sqrt (1 / 10 ^ 15) \<le> 1" by (rule real_le_lsqrt) simp_all
  ultimately have "sqrt (1 / 10 ^ 15) + sqrt (1 / 10 ^ 15) + sqrt (1 + 1 / 10 ^ 15) \<le> 5"
    by linarith
  then show ?thesis
    using reset_recomputes_smooth_floor [OF ar, of "(0, 0, 2)"]
    by (simp add: ar demo_sim vsub_def vmap_def vsum_def smoothabs_def)
qed

subsection \<open>The \<open>done\<close> flag of \<open>step\<close>\<close>

text \<open>
  C2, as the spec states it: \<open>step\<close> returns \<open>done\<close> if the simulator reported \<open>done\<close> on
  any of the three sub-steps. With the simulator that reports the step on which the
  height reaches the ground, the first sub-step of the task below reports \<open>done\<close>, the
  next two do not, and \<open>step\<close> returns \<open>False\<close>.
\<close>

theorem step_done_counterexample:
  "rotor_speeds_of [0, 0, 0, 0, 0] = Inr [1, 1, 1, 1]
   \<and> snd (bounce_next_timestep (sim demo_task) [1, 1, 1, 1])
   \<and> done_of (fst (step bounce_next_timestep demo_task [0, 0, 0, 0, 0])) = Inr False"
proof -
  have ar: "action_repeat demo_task = 3" by (simp add: demo_task_def)
  have "done_of (fst (step bounce_next_timestep demo_task [0, 0, 0, 0, 0])) = Inr False"
    by (simp add: step_def demo_rotor step_three [OF ar] done_of_def Let_def sub_step_done
          sub_step_sim demo_sim bounce_next_timestep_def)
  then show ?thesis by (simp add: demo_rotor demo_sim bounce_next_timestep_def)
qed

text \<open>
  C2, amended: with \<open>action_repeat = 3\<close>, the \<open>done\<close> that \<open>step\<close> returns is the value the
  simulator reported on the third, last sub-step; each sub-step overwrites it.
\<close>

theorem step_done_is_last:
  assumes "action_repeat self = 3" and "rotor_speeds_of actions = Inr rotor_speeds"
  shows "done_of (fst (step nt self actions))
           = Inr (snd (nt (sim (fst (sub_step nt rotor_speeds (fst (sub_step nt rotor_speeds self)))))
                        rotor_speeds))"
  using assms
  by (simp add: step_def step_three done_of_def sub_step_done Let_def)

theorem step_done_is_last_witness:
  "action_repeat demo_task = 3 \<and> rotor_speeds_of [0, 0, 0, 0, 0] = Inr [1, 1, 1, 1]
   \<and> done_of (fst (step clock_next_timestep demo_task [0, 0, 0, 0, 0])) = Inr False"
proof -
  have ar: "action_repeat demo_task = 3" by (simp add: demo_task_def)
  show ?thesis
    using step_done_is_last [OF ar demo_rotor, of clock_next_timestep]
    by (simp add: ar demo_rotor sub_step_sim demo_sim clock_next_timestep_def)
qed

subsection \<open>The constructor without a target\<close>

text \<open>
  C3: the spec has the target position optional. The constructor sets the default
  target in \<open>self.target_pos\<close> and then subtracts with the argument itself, so that
  every construction with \<open>target_pos\<close> omitted raises \<open>TypeError\<close>, whatever the other
  arguments are.
\<close>

theorem Task_init_target_omitted:
  "Task_init PhysicsSim init_pose init_velocities init_angle_velocities runtime None arg_target_vel
     = Inl TypeError"
  by (simp add: Task_init_def split: option.splits)

subsection \<open>The reward depends on roll and pitch only\<close>

text \<open>
  C5: two calls of \<open>calc_reward\<close> with the same roll and pitch return the same reward,
  whatever the time, the position, the velocities, the yaw and the fields of the task
  are; and the task that a call leaves behind depends on the position only in its field
  \<open>distpunishment\<close>.
\<close>

theorem calc_reward_angles_only:
  "fst (calc_reward self time position (roll, pitch, yaw) velocities)
     = fst (calc_reward self' time' position' (roll, pitch, yaw') velocities')
   \<and> (snd (calc_reward self time position angles velocities))\<lparr>distpunishment := None\<rparr>
     = (snd (calc_reward self time' position' angles velocities'))\<lparr>distpunishment := None\<rparr>"
  by (simp add: calc_reward_def Let_def)

subsection \<open>The observation and the reward of \<open>step\<close>\<close>

text \<open>
  C7: with \<open>action_repeat = 3\<close>, \<open>step\<close> on an action of five elements advances the
  simulator three times with the rotor speeds and returns an observation of 27 numbers:
  the six numbers of the pose and then the three of the angular velocity, as the
  simulator has them after the first, the second and the third advance, in that order.
  The reward it returns is the sum of the three rewards that \<open>get_reward\<close> computes, each
  right after its advance, on the task as the previous \<open>get_reward\<close> left it.
\<close>

theorem step_observation_and_reward:
  assumes "action_repeat self = 3"
  shows "let rotor_speeds = [max (a0 + a1) 1, max (a0 + a2) 1, max (a0 + a3) 1, max (a0 + a4) 1];
             flat = (\<lambda>s. case sim_pose s of
                       ((x, y, z), (phi, theta, psi)) \<Rightarrow>
                         (case sim_angular_v s of
                            (wx, wy, wz) \<Rightarrow> [x, y, z, phi, theta, psi, wx, wy, wz]));
             s1 = fst (nt (sim self) rotor_speeds);
             r1 = fst (get_reward (self\<lparr>sim := s1\<rparr>));
             self1 = snd (get_reward (self\<lparr>sim := s1\<rparr>));
             s2 = fst (nt s1 rotor_speeds);
             r2 = fst (get_reward (self1\<lparr>sim := s2\<rparr>));
             self2 = snd (get_reward (self1\<lparr>sim := s2\<rparr>));
             s3 = fst (nt s2 rotor_speeds);
             r3 = fst (get_reward (self2\<lparr>sim := s3\<rparr>));
             next_state = flat s1 @ flat s2 @ flat s3
         in fst (step nt self [a0, a1, a2, a3, a4])
              = Inr (next_state, r1 + r2 + r3, snd (nt s2 rotor_speeds))
            \<and> length next_state = 27"
  using assms
  by (simp add: Let_def step_def rotor_speeds_of_def step_three sub_step_explicit sim_get_reward
        pose_and_angular_v_def pose_list_def vlist_def case_prod_beta)

theorem step_observation_and_reward_witness:
  "action_repeat demo_task = 3
   \<and> fst (step clock_next_timestep demo_task [400, 1, - 1, 1, - 1])
       = Inr ([0, 0, 1, 0, 0, 0, 0, 0, 0, 0, 0, 1, 0, 0, 0, 0, 0, 0, 0, 0, 1, 0, 0, 0, 0, 0, 0],
              tanh (2 - (smoothabs 0 + smoothabs 0)) + tanh (2 - (smoothabs 0 + smoothabs 0))
                + tanh (2 - (smoothabs 0 + smoothabs 0)),
              False)"
proof -
  have ar: "action_repeat demo_task = 3" by (simp add: demo_task_def)
  show ?thesis
    using step_observation_and_reward [OF ar, of 400 1 "- 1" 1 "- 1" clock_next_timestep]
    by (simp add: ar Let_def demo_sim clock_next_timestep_def get_reward_def sim_calc_reward
          calc_reward_value)
qed

subsection \<open>The rotor speeds\<close>

text \<open>
  C8: for an action \<open>[a0, a1, a2, a3, a4]\<close> the rotor speeds are \<open>max (a0 + ai) 1\<close> for
  \<open>i = 1, \<dots>, 4\<close>, these are the speeds \<open>step\<close> runs the simulator with, and the action
  \<open>[0, -5, -5, -5, -5]\<close> gives \<open>[1, 1, 1, 1]\<close>.
\<close>

theorem rotor_speeds_floor:
  "rotor_speeds_of [a0, a1, a2, a3, a4]
     = Inr [max (a0 + a1) 1, max (a0 + a2) 1, max (a0 + a3) 1, max (a0 + a4) 1]
   \<and> step nt self [a0, a1, a2, a3, a4]
     = step_with nt self [max (a0 + a1) 1, max (a0 + a2) 1, max (a0 + a3) 1, max (a0 + a4) 1]
   \<and> rotor_speeds_of [0, - 5, - 5, - 5, - 5] = Inr [1, 1, 1, 1]"
  by (simp add: rotor_speeds_of_def step_def)

subsection \<open>The floor of \<open>suminitdist\<close>\<close>

lemma calc_reward_keeps:
  "action_repeat (snd (calc_reward self time position angles velocities)) = action_repeat self"
  "suminitdist (snd (calc_reward self time position angles velocities)) = suminitdist self"
  by (simp_all add: calc_reward_def Let_def)

lemma sub_step_keeps:
  "action_repeat (fst (sub_step nt rs t)) = action_repeat t"
  "suminitdist (fst (sub_step nt rs t)) = suminitdist t"
  by (simp_all add: sub_step_def get_reward_def case_prod_beta calc_reward_keeps)

lemma step_loop_keeps:
  "action_repeat (fst (step_loop nt rs n st)) = action_repeat (fst st)
   \<and> suminitdist (fst (step_loop nt rs n st)) = suminitdist (fst st)"
proof (induction n arbitrary: st)
  case 0
  show ?case by simp
next
  case (Suc n)
  obtain self reward pose_all dn where st: "st = (self, reward, pose_all, dn)"
    by (cases st) auto
  show ?case
    by (simp add: st case_prod_beta Suc.IH sub_step_keeps)
qed

lemma step_keeps:
  "action_repeat (snd (step nt self actions)) = action_repeat self"
  "suminitdist (snd (step nt self actions)) = suminitdist self"
  using step_loop_keeps [of nt _ "action_repeat self" "(self, 0, [], None)"]
  by (auto simp add: step_def step_with_def case_prod_beta split: sum.splits option.splits)

lemma reset_keeps:
  "action_repeat (snd (reset self new_tgt_pos)) = action_repeat self"
  "5 \<le> suminitdist self \<Longrightarrow> 5 \<le> suminitdist (snd (reset self new_tgt_pos))"
  by (simp_all add: reset_def Let_def split: sum.splits option.splits)

lemma get_max_reward_keeps:
  "action_repeat (snd (get_max_reward self)) = action_repeat self"
  "suminitdist (snd (get_max_reward self)) = suminitdist self"
  by (simp_all add: get_max_reward_def case_prod_beta calc_reward_keeps)

lemma do_call_ok: "task_ok self \<Longrightarrow> task_ok (do_call nt self c)"
  by (cases c)
     (simp_all add: task_ok_def step_keeps reset_keeps get_max_reward_keeps get_reward_def
        calc_reward_keeps)

lemma run_ok: "task_ok self \<Longrightarrow> task_ok (run nt self cs)"
  unfolding run_def by (induction cs arbitrary: self) (simp_all add: do_call_ok)

lemma Task_init_ok:
  "Task_init PhysicsSim init_pose init_velocities init_angle_velocities runtime atp atv = Inr self
     \<Longrightarrow> task_ok self"
  by (auto simp add: Task_init_def task_ok_def Let_def split: option.splits)

text \<open>
  C9: a task that the constructor has built has \<open>suminitdist\<close> of at least 5, it still
  has after any sequence of calls of \<open>step\<close>, \<open>reset\<close> (with or without a new target),
  \<open>get_reward\<close> and \<open>get_max_reward\<close>, and after one more \<open>reset\<close>; and after
  \<open>reset\<close> with a new target \<open>t\<close>, \<open>initvec2tgt\<close> is \<open>t\<close> minus the simulator's initial
  position.
\<close>

theorem suminitdist_floor_invariant:
  assumes "Task_init PhysicsSim init_pose init_velocities init_angle_velocities runtime
             arg_target_pos arg_target_vel = Inr self"
  shows "5 \<le> suminitdist self
         \<and> 5 \<le> suminitdist (run nt self cs)
         \<and> 5 \<le> suminitdist (snd (reset (run nt self cs) new_tgt_pos))
         \<and> initvec2tgt (snd (reset (run nt self cs) (Some t)))
             = vsub t (fst (sim_init_pose (sim (run nt self cs))))"
proof -
  have ok0: "task_ok self" using assms by (rule Task_init_ok)
  then have ok: "task_ok (run nt self cs)" by (rule run_ok)
  then have pos: "0 < action_repeat (run nt self cs)" by (simp add: task_ok_def)
  from ok0 ok show ?thesis
    by (simp add: task_ok_def reset_keeps reset_new_target [OF pos])
qed

theorem suminitdist_floor_invariant_witness:
  "Task_init demo_PhysicsSim (Some ((0, 0, 1), (0, 0, 0))) (Some (0, 0, - 1)) None 5
     (Some (0, 0, 10)) None = Inr demo_task
   \<and> 5 \<le> suminitdist demo_task
   \<and> 5 \<le> suminitdist (run clock_next_timestep demo_task [Step [400, 0, 0, 0, 0], Reset (Some (0, 0, 2))])
   \<and> initvec2tgt (snd (reset demo_task (Some (0, 0, 2)))) = (0, 0, 1)"
  using suminitdist_floor_invariant [OF demo_task_constructed,
          of clock_next_timestep "[Step [400, 0, 0, 0, 0], Reset (Some (0, 0, 2))]"]
        suminitdist_floor_invariant [OF demo_task_constructed, of clock_next_timestep "[]" _ "(0, 0, 2)"]
  by (simp add: demo_task_constructed run_def demo_sim vsub_def)

subsection \<open>One correction of an angle beyond \<open>\<pi>\<close>\<close>



subsection \<open>The reward of level flight\<close>

lemma exp_1_bounds: "13563139 / 4989600 \<le> exp (1::real) \<and> exp (1::real) \<le> 144673483 / 53222400"
proof -
  obtain t :: real where t: "\<bar>t\<bar> \<le> \<bar>1\<bar>"
    and e: "exp (1::real) = (\<Sum>m<12. (1 ^ m) / fact m) + (exp t / fact 12) * 1 ^ 12"
    using Maclaurin_exp_le [of 1 12] by blast
  have s: "(\<Sum>m<12. (1 ^ m) / fact m) = (13563139 / 4989600 :: real)"
    by (simp add: numeral_eq_Suc)
  have "t \<le> 1" using t by simp
  then have "exp t \<le> exp 1" by simp
  also have "\<dots> \<le> 3" by (rule exp_le)
  finally have hi: "exp t \<le> 3" .
  have lo: "0 < exp t" by simp
  have f: "fact 12 = (479001600 :: real)" by (simp add: fact_numeral)
  have "exp (1::real) = 13563139 / 4989600 + exp t / 479001600"
    using e s f by simp
  with lo hi show ?thesis by simp
qed

lemma exp_4_bounds: "5459814 / 100000 \<le> exp (4::real) \<and> exp (4::real) \<le> 5459816 / 100000"
proof -
  have e4: "exp (4::real) = exp 1 ^ 4"
    using exp_of_nat_mult [of 4 "1::real"] by simp
  have "(5459814 / 100000 :: real) \<le> (13563139 / 4989600) ^ 4"
    by (simp add: power_divide)
  also have "\<dots> \<le> exp 1 ^ 4"
    using exp_1_bounds by (intro power_mono) simp_all
  finally have lo: "5459814 / 100000 \<le> exp (1::real) ^ 4" .
  have "exp (1::real) ^ 4 \<le> (144673483 / 53222400) ^ 4"
    using exp_1_bounds by (intro power_mono) simp_all
  also have "\<dots> \<le> 5459816 / 100000"
    by (simp add: power_divide)
  finally have hi: "exp (1::real) ^ 4 \<le> 5459816 / 100000" .
  from lo hi show ?thesis unfolding e4 by simp
qed

lemma tanh_via_exp: "tanh (x::real) = 1 - 2 / (exp (2 * x) + 1)"
proof -
  define w where "w = exp (2 * x)"
  have p: "0 < w" by (simp add: w_def)
  have "exp (- 2 * x) = inverse w" by (simp add: w_def exp_minus)
  then have "tanh x = (1 - inverse w) / (1 + inverse w)"
    by (simp add: tanh_real_altdef)
  also have "1 - inverse w = (w - 1) / w"
    using p by (simp add: field_simps)
  also have "1 + inverse w = (w + 1) / w"
    using p by (simp add: field_simps)
  also have "(w - 1) / w / ((w + 1) / w) = (w - 1) / (w + 1)"
    using p by simp
  also have "\<dots> = ((w + 1) - 2) / (w + 1)" by simp
  also have "\<dots> = 1 - 2 / (w + 1)"
    using p by (simp only: diff_divide_distrib) simp
  finally show ?thesis by (simp add: w_def)
qed

lemma sqrt_eps_bounds:
  "31622 / 1000000000000 \<le> sqrt (1 / 10 ^ 15 :: real)
   \<and> sqrt (1 / 10 ^ 15 :: real) \<le> 31623 / 1000000000000"
proof
  show "31622 / 1000000000000 \<le> sqrt (1 / 10 ^ 15 :: real)"
    by (rule real_le_rsqrt) (simp add: power_divide)
  show "sqrt (1 / 10 ^ 15 :: real) \<le> 31623 / 1000000000000"
    by (rule real_le_lsqrt) (simp_all add: power_divide)
qed

lemma tanh_2_upper: "tanh (2::real) < 96402765 / 100000000"
proof -
  have "exp (4::real) + 1 \<le> 5559816 / 100000" using exp_4_bounds by simp
  moreover have "0 < exp (4::real) + 1" by (simp add: add_pos_pos)
  ultimately have "2 / (5559816 / 100000) \<le> 2 / (exp (4::real) + 1)"
    by (intro divide_left_mono) simp_all
  moreover have "(3597235 / 100000000 :: real) < 2 / (5559816 / 100000)" by simp
  ultimately have "3597235 / 100000000 < 2 / (exp (4::real) + 1)" by (rule less_le_trans [rotated])
  then show ?thesis unfolding tanh_via_exp by simp
qed

lemma tanh_near_2_lower:
  assumes "0 \<le> d" and "d \<le> 31623 / 1000000000000"
  shows "96402755 / 100000000 < tanh (2 - (d + d) :: real)"
proof -
  define w where "w = exp (2 * (2 - (d + d)))"
  have w: "w = exp 4 * exp (- (4 * d))"
    by (simp add: w_def exp_add [symmetric])
  have "1 + (- (4 * d)) \<le> exp (- (4 * d))" by (rule exp_ge_add_one_self)
  then have c: "999999873508 / 1000000000000 \<le> exp (- (4 * d))" using assms by simp
  have "(5459811 / 100000 :: real) \<le> (5459814 / 100000) * (999999873508 / 1000000000000)" by simp
  also have "\<dots> \<le> exp 4 * exp (- (4 * d))"
    using exp_4_bounds c by (intro mult_mono) simp_all
  finally have wl: "5559811 / 100000 \<le> w + 1" unfolding w by simp
  then have "2 / (w + 1) \<le> 2 / (5559811 / 100000)"
    by (intro divide_left_mono) simp_all
  also have "2 / (5559811 / 100000) < (3597245 / 100000000 :: real)" by simp
  finally have "2 / (w + 1) < 3597245 / 100000000" .
  then show ?thesis unfolding tanh_via_exp w_def by simp
qed

text \<open>
  C10: at roll 0 and pitch 0 the two terms of the angle punishment are \<open>smoothabs 0\<close>,
  the square root of \<open>10\<^sup>-\<^sup>1\<^sup>5\<close>, which is \<open>3.16e-8\<close> to within \<open>1e-10\<close>; the reward is
  \<open>tanh (2 - 2 * smoothabs 0)\<close>, within \<open>1e-7\<close> of \<open>tanh 2\<close>, and both are within
  \<open>5e-8\<close> of \<open>0.9640276\<close>.
\<close>

theorem calc_reward_level:
  "fst (calc_reward self time position (0, 0, yaw) velocities) = tanh (2 - (smoothabs 0 + smoothabs 0))
   \<and> highanglepunishment (snd (calc_reward self time position (0, 0, yaw) velocities))
       = Some (smoothabs 0 + smoothabs 0)
   \<and> smoothabs 0 = sqrt (1 / 10 ^ 15)
   \<and> \<bar>smoothabs 0 - 316 / 10000000000\<bar> < 1 / 10000000000
   \<and> \<bar>fst (calc_reward self time position (0, 0, yaw) velocities) - tanh 2\<bar> < 1 / 10000000
   \<and> \<bar>fst (calc_reward self time position (0, 0, yaw) velocities) - 9640276 / 10000000\<bar>
       < 5 / 100000000
   \<and> \<bar>tanh 2 - 9640276 / 10000000 :: real\<bar> < 5 / 100000000"
proof -
  define d where "d = smoothabs 0"
  define r where "r = tanh (2 - (d + d))"
  have d: "d = sqrt (1 / 10 ^ 15)" by (simp add: d_def smoothabs_def)
  have db: "31622 / 1000000000000 \<le> d" "d \<le> 31623 / 1000000000000"
    using sqrt_eps_bounds by (simp_all add: d)
  have rr: "fst (calc_reward self time position (0, 0, yaw) velocities) = r"
    by (simp add: calc_reward_value r_def d_def)
  have h: "highanglepunishment (snd (calc_reward self time position (0, 0, yaw) velocities))
       = Some (d + d)"
    by (simp add: calc_reward_def Let_def d_def)
  have lo: "96402755 / 100000000 < r"
    unfolding r_def using db by (intro tanh_near_2_lower) simp_all
  have "2 - (d + d) \<le> 2" using db by simp
  then have le: "r \<le> tanh 2" unfolding r_def by simp
  have hi: "tanh (2::real) < 96402765 / 100000000" by (rule tanh_2_upper)
  have 1: "\<bar>d - 316 / 10000000000\<bar> < 1 / 10000000000" using db by linarith
  have 2: "\<bar>r - tanh 2\<bar> < 1 / 10000000" using lo le hi by linarith
  have 3: "\<bar>r - 9640276 / 10000000\<bar> < 5 / 100000000" using lo le hi by linarith
  have 4: "\<bar>tanh 2 - 9640276 / 10000000 :: real\<bar> < 5 / 100000000"
    using lo le hi by linarith
  show ?thesis
    unfolding rr h using 1 2 3 4 d by (simp add: r_def d_def)
qed

subsection \<open>The range of the reward over the reals\<close>

text \<open>
  With real numbers for \<open>float64\<close> the reward lies strictly between \<open>-1\<close> and \<open>1\<close>. This
  says nothing on the values that \<open>np.tanh\<close> rounds to: for a large angle punishment
  the nearest \<open>float64\<close> to the real value is \<open>-1\<close> itself.
\<close>

lemma calc_reward_range_over_reals:
  "- 1 < fst (calc_reward self time position angles velocities)
   \<and> fst (calc_reward self time position angles velocities) < 1"
  by (simp add: calc_reward_value tanh_real_gt_neg1 tanh_real_lt_1)

end
